theory Spec2Isabelle
  imports Complex_Main "HOL-Library.Sublist"
begin

section \<open>JavaScript numbers\<close>

text \<open>
  The calculator works on JavaScript numbers. A number is modelled as a finite real, one of
  the two infinities, or NaN. Arithmetic on finite values is exact: rounding to the nearest
  double and overflow to an infinity are not modelled, and negative zero is identified with
  zero (so a division by zero takes the sign of its numerator). What is modelled exactly is
  what the source can observe of the special values: \<open>0/0\<close> is NaN, \<open>x/0\<close> is an infinity,
  NaN is absorbing, every comparison with NaN is false, and NaN and 0 are falsy.
\<close>

datatype number = Fin real | PInf | NInf | NaN

fun js_neg :: "number \<Rightarrow> number" where
  "js_neg (Fin a) = Fin (- a)"
| "js_neg PInf = NInf"
| "js_neg NInf = PInf"
| "js_neg NaN = NaN"

fun js_add :: "number \<Rightarrow> number \<Rightarrow> number" where
  "js_add NaN _ = NaN"
| "js_add _ NaN = NaN"
| "js_add PInf NInf = NaN"
| "js_add NInf PInf = NaN"
| "js_add PInf _ = PInf"
| "js_add _ PInf = PInf"
| "js_add NInf _ = NInf"
| "js_add _ NInf = NInf"
| "js_add (Fin a) (Fin b) = Fin (a + b)"

definition js_sub :: "number \<Rightarrow> number \<Rightarrow> number" where
  "js_sub a b = js_add a (js_neg b)"

text \<open>The sign of a number that is not NaN: \<open>-1\<close>, \<open>0\<close> or \<open>1\<close>.\<close>

fun js_sign :: "number \<Rightarrow> int" where
  "js_sign (Fin a) = (if a < 0 then - 1 else if a = 0 then 0 else 1)"
| "js_sign PInf = 1"
| "js_sign NInf = - 1"
| "js_sign NaN = 0"

definition signed_inf :: "int \<Rightarrow> number" where
  "signed_inf s = (if s < 0 then NInf else PInf)"

fun js_mul :: "number \<Rightarrow> number \<Rightarrow> number" where
  "js_mul NaN _ = NaN"
| "js_mul _ NaN = NaN"
| "js_mul (Fin a) (Fin b) = Fin (a * b)"
| "js_mul a b =
     (if js_sign a = 0 \<or> js_sign b = 0 then NaN else signed_inf (js_sign a * js_sign b))"

fun js_div :: "number \<Rightarrow> number \<Rightarrow> number" where
  "js_div NaN _ = NaN"
| "js_div _ NaN = NaN"
| "js_div (Fin a) (Fin b) =
     (if b = 0 then (if a = 0 then NaN else signed_inf (js_sign (Fin a))) else Fin (a / b))"
| "js_div (Fin a) _ = Fin 0"
| "js_div a (Fin b) = signed_inf (js_sign a * (if b < 0 then - 1 else 1))"
| "js_div _ _ = NaN"

text \<open>\<open>a > b\<close>; false as soon as one side is NaN.\<close>

fun js_gt :: "number \<Rightarrow> number \<Rightarrow> bool" where
  "js_gt NaN _ = False"
| "js_gt _ NaN = False"
| "js_gt (Fin a) (Fin b) = (b < a)"
| "js_gt PInf b = (b \<noteq> PInf)"
| "js_gt a NInf = (a \<noteq> NInf)"
| "js_gt _ _ = False"

definition js_lt :: "number \<Rightarrow> number \<Rightarrow> bool" where
  "js_lt a b = js_gt b a"

text \<open>\<open>Math.min\<close>, \<open>Math.max\<close> (NaN as soon as one argument is NaN) and \<open>Math.sqrt\<close>.\<close>

definition Math_min :: "number \<Rightarrow> number \<Rightarrow> number" where
  "Math_min a b = (if a = NaN \<or> b = NaN then NaN else if js_gt a b then b else a)"

definition Math_max :: "number \<Rightarrow> number \<Rightarrow> number" where
  "Math_max a b = (if a = NaN \<or> b = NaN then NaN else if js_gt b a then b else a)"

fun Math_sqrt :: "number \<Rightarrow> number" where
  "Math_sqrt (Fin a) = (if a < 0 then NaN else Fin (sqrt a))"
| "Math_sqrt PInf = PInf"
| "Math_sqrt NInf = NaN"
| "Math_sqrt NaN = NaN"

text \<open>Truthiness of a number, as \<open>||\<close> tests it, and \<open>a || b\<close> on numbers.\<close>

definition truthy :: "number \<Rightarrow> bool" where
  "truthy a = (a \<noteq> NaN \<and> a \<noteq> Fin 0)"

definition js_or :: "number \<Rightarrow> number \<Rightarrow> number" where
  "js_or a b = (if truthy a then a else b)"

definition is_finite :: "number \<Rightarrow> bool" where
  "is_finite a = (case a of Fin _ \<Rightarrow> True | _ \<Rightarrow> False)"

section \<open>parseFloat\<close>

text \<open>
  \<open>parseFloat\<close> skips leading white space and reads the longest prefix that is a decimal
  literal: an optional sign, then \<open>Infinity\<close> or digits with an optional fraction and an
  optional exponent. No such prefix gives NaN. The value is the exact decimal value.
\<close>

definition is_digit :: "char \<Rightarrow> bool" where
  "is_digit c = (c \<in> set ''0123456789'')"

definition is_ws :: "char \<Rightarrow> bool" where
  "is_ws c = (c \<in> {CHR '' '', CHR 0x09, CHR 0x0A, CHR 0x0B, CHR 0x0C, CHR 0x0D})"

definition digit_val :: "char \<Rightarrow> nat" where
  "digit_val c = of_char c - 48"

definition digits_val :: "string \<Rightarrow> nat" where
  "digits_val s = foldl (\<lambda>n c. 10 * n + digit_val c) 0 s"

text \<open>The exponent part \<open>e\<close>, \<open>e+\<close>, \<open>e-\<close> followed by digits; absent or incomplete, it is 0.\<close>

definition exponent_part :: "string \<Rightarrow> int" where
  "exponent_part s =
     (case s of
        [] \<Rightarrow> 0
      | c # t \<Rightarrow>
          if c = CHR ''e'' \<or> c = CHR ''E'' then
            (case t of
               [] \<Rightarrow> 0
             | d # u \<Rightarrow>
                 if d = CHR ''-'' then
                   (if takeWhile is_digit u = [] then 0
                    else - int (digits_val (takeWhile is_digit u)))
                 else if d = CHR ''+'' then
                   (if takeWhile is_digit u = [] then 0
                    else int (digits_val (takeWhile is_digit u)))
                 else int (digits_val (takeWhile is_digit t)))
          else 0)"

definition scale10 :: "real \<Rightarrow> int \<Rightarrow> real" where
  "scale10 x e = (if 0 \<le> e then x * 10 ^ nat e else x / 10 ^ nat (- e))"

definition parse_unsigned :: "string \<Rightarrow> number" where
  "parse_unsigned s =
     (if prefix ''Infinity'' s then PInf
      else
        let ip = takeWhile is_digit s;
            r1 = dropWhile is_digit s;
            fp = (case r1 of [] \<Rightarrow> [] | c # t \<Rightarrow> if c = CHR ''.'' then takeWhile is_digit t else []);
            r2 = (case r1 of [] \<Rightarrow> [] | c # t \<Rightarrow> if c = CHR ''.'' then dropWhile is_digit t else r1)
        in if ip = [] \<and> fp = [] then NaN
           else Fin (scale10 (real (digits_val ip) + real (digits_val fp) / 10 ^ length fp)
                      (exponent_part r2)))"

definition parseFloat :: "string \<Rightarrow> number" where
  "parseFloat s =
     (case dropWhile is_ws s of
        [] \<Rightarrow> NaN
      | c # t \<Rightarrow>
          if c = CHR ''-'' then js_neg (parse_unsigned t)
          else if c = CHR ''+'' then parse_unsigned t
          else parse_unsigned (c # t))"

section \<open>Data model (types/trading.ts)\<close>

text \<open>A level is the pair \<open>[price, size]\<close> of decimal strings.\<close>

type_synonym level = "string \<times> string"

record OrderbookData =
  timestamp :: string
  exchange :: string
  symbol :: string
  asks :: "level list"
  bids :: "level list"

record SimulationResults =
  slippage :: number
  fees :: number
  marketImpact :: number
  netCost :: number
  makerProportion :: number
  takerProportion :: number
  internalLatency :: number

record MetricsParams =
  orderbook :: OrderbookData
  quantity :: number
  orderType :: string
  volatility :: number
  feeTier :: string
  exchange_name :: string

text \<open>
  The exceptions of the model: reading a property of \<open>undefined\<close> raises a TypeError (the
  only exception the calculator can raise), and \<open>JSON.parse\<close> raises a SyntaxError on a
  malformed text.
\<close>

datatype error = TypeError | SyntaxError

text \<open>\<open>levels[0][0]\<close>: on an empty array \<open>levels[0]\<close> is \<open>undefined\<close> and the second read raises.\<close>

definition price0 :: "level list \<Rightarrow> error + string" where
  "price0 levels = (case levels of [] \<Rightarrow> Inl TypeError | l # _ \<Rightarrow> Inr (fst l))"

text \<open>\<open>levels.reduce((sum, l) => sum + parseFloat(l[1]), 0)\<close>\<close>

definition sum_sizes :: "level list \<Rightarrow> number" where
  "sum_sizes levels = foldl (\<lambda>sum l. js_add sum (parseFloat (snd l))) (Fin 0) levels"

text \<open>\<open>levels.reduce((sum, l) => sum + parseFloat(l[0]) * parseFloat(l[1]), 0)\<close>\<close>

definition sum_liquidity :: "level list \<Rightarrow> number" where
  "sum_liquidity levels =
     foldl (\<lambda>sum l. js_add sum (js_mul (parseFloat (fst l)) (parseFloat (snd l)))) (Fin 0) levels"

section \<open>The metrics calculator (lib/metrics-calculator.ts)\<close>

definition calculateSlippage :: "OrderbookData \<Rightarrow> number \<Rightarrow> number" where
  "calculateSlippage ob qty =
     (let topAsks = take 5 (asks ob);
          topBids = take 5 (bids ob);
          askVolume = sum_sizes topAsks;
          bidVolume = sum_sizes topBids;
          imbalance = js_div (js_sub bidVolume askVolume) (js_add bidVolume askVolume);
          baseSlippage = Fin 0.05;
          sizeImpact = js_mul (Fin 0.001) (Math_sqrt qty);
          imbalanceEffect = js_mul (Fin (- 0.1)) imbalance
      in js_add (js_add baseSlippage sizeImpact) imbalanceEffect)"

text \<open>
  The value of a property read on the object literal \<open>feeRates\<close>: a number for its own three
  keys, an object (a function, or \<open>Object.prototype\<close> for \<open>__proto__\<close>) for the names it
  inherits from \<open>Object.prototype\<close>, and \<open>undefined\<close> for any other key.
\<close>

datatype jsvalue = Number number | Object | Undefined

definition Object_prototype_keys :: "string list" where
  "Object_prototype_keys =
     [''constructor'', ''hasOwnProperty'', ''isPrototypeOf'', ''propertyIsEnumerable'',
      ''toLocaleString'', ''toString'', ''valueOf'', ''__proto__'',
      ''__defineGetter__'', ''__defineSetter__'', ''__lookupGetter__'', ''__lookupSetter__'']"

definition feeRates :: "string \<Rightarrow> jsvalue" where
  "feeRates k =
     (if k = ''tier1'' then Number (Fin 0.001)
      else if k = ''tier2'' then Number (Fin 0.0008)
      else if k = ''tier3'' then Number (Fin 0.0005)
      else if k \<in> set Object_prototype_keys then Object
      else Undefined)"

fun truthy_value :: "jsvalue \<Rightarrow> bool" where
  "truthy_value (Number a) = truthy a"
| "truthy_value Object = True"
| "truthy_value Undefined = False"

text \<open>
  The operand conversion of \<open>*\<close>. The inherited objects convert to the strings
  \<open>function ...\<close> and \<open>[object Object]\<close>, which are not numerals.
\<close>

fun ToNumber :: "jsvalue \<Rightarrow> number" where
  "ToNumber (Number a) = a"
| "ToNumber Object = NaN"
| "ToNumber Undefined = NaN"

definition calculateFees :: "number \<Rightarrow> string \<Rightarrow> number" where
  "calculateFees qty tier =
     (let feeRate = (if truthy_value (feeRates tier) then feeRates tier else feeRates ''tier1'')
      in js_mul qty (ToNumber feeRate))"

definition calculateEnhancedMarketImpact :: "OrderbookData \<Rightarrow> number \<Rightarrow> number \<Rightarrow> error + number" where
  "calculateEnhancedMarketImpact ob qty vol =
     (case price0 (asks ob) of
        Inl e \<Rightarrow> Inl e
      | Inr a0 \<Rightarrow>
     (case price0 (bids ob) of
        Inl e \<Rightarrow> Inl e
      | Inr b0 \<Rightarrow>
          Inr (let bestAsk = parseFloat a0;
                   bestBid = parseFloat b0;
                   midPrice = js_div (js_add bestAsk bestBid) (Fin 2);
                   bidLiquidity = sum_liquidity (bids ob);
                   askLiquidity = sum_liquidity (asks ob);
                   totalLiquidity = js_add bidLiquidity askLiquidity;
                   bidDepth = sum_sizes (bids ob);
                   askDepth = sum_sizes (asks ob);
                   totalDepth = js_add bidDepth askDepth;
                   relativeOrderSize =
                     (if js_gt totalDepth (Fin 0) then js_div qty totalDepth else Fin 0);
                   permanentImpactFactor = js_mul (Fin 0.1) vol;
                   temporaryImpactFactor = Fin 0.05;
                   permanentImpact =
                     js_mul (js_mul permanentImpactFactor relativeOrderSize) midPrice;
                   temporaryImpact =
                     js_mul (js_mul (js_mul temporaryImpactFactor (Math_sqrt relativeOrderSize))
                               midPrice)
                       (js_add (Fin 1) vol);
                   impact = js_add permanentImpact temporaryImpact
               in js_mul (js_div impact midPrice) (Fin 100))))"

text \<open>The result is the pair \<open>(makerProportion, takerProportion)\<close>.\<close>

definition estimateImprovedMakerTakerProportion ::
  "OrderbookData \<Rightarrow> number \<Rightarrow> string \<Rightarrow> number \<Rightarrow> error + number \<times> number" where
  "estimateImprovedMakerTakerProportion ob qty otype vol =
     (case price0 (asks ob) of
        Inl e \<Rightarrow> Inl e
      | Inr a0 \<Rightarrow>
     (case price0 (bids ob) of
        Inl e \<Rightarrow> Inl e
      | Inr b0 \<Rightarrow>
          Inr (let bestAsk = parseFloat a0;
                   bestBid = parseFloat b0;
                   spread = js_sub bestAsk bestBid;
                   midPrice = js_div (js_add bestAsk bestBid) (Fin 2);
                   bidDepth = sum_sizes (bids ob);
                   askDepth = sum_sizes (asks ob);
                   relSpread = (if js_gt midPrice (Fin 0) then js_div spread midPrice else Fin 0);
                   relOrderSize =
                     (if js_gt (js_mul askDepth midPrice) (Fin 0)
                      then js_div qty (js_mul askDepth midPrice) else Fin 1);
                   baseRate = (if otype = ''market'' then Fin 0.95 else Fin 0.5);
                   sizeImpact = Math_min (Fin 0.25) (js_mul relOrderSize (Fin 0.5));
                   volatilityImpact = Math_min (Fin 0.15) (js_mul vol (Fin 0.3));
                   spreadImpact = Math_max (Fin (- 0.2)) (js_mul (js_neg relSpread) (Fin 20));
                   depthImbalance =
                     js_div (js_sub bidDepth askDepth) (js_or (js_add bidDepth askDepth) (Fin 1));
                   balanceImpact =
                     Math_min (Math_max (Fin (- 0.1)) (js_mul depthImbalance (Fin 0.1))) (Fin 0.1);
                   takerRatio0 =
                     Math_min (Fin 1)
                       (Math_max (Fin 0)
                          (js_add (js_add (js_add (js_add baseRate sizeImpact) volatilityImpact)
                                     spreadImpact)
                             balanceImpact));
                   takerRatio =
                     (if js_gt vol (Fin 0.8) then Math_min (Fin 1) (js_add takerRatio0 (Fin 0.15))
                      else takerRatio0);
                   takerP = js_mul takerRatio (Fin 100);
                   makerP = js_sub (Fin 100) takerP
               in (makerP, takerP))))"

text \<open>
  \<open>calculateMetrics\<close> draws the latency from \<open>Math.random()\<close>; the draw, a value in
  \<open>[0, 1)\<close>, is the second argument.
\<close>

definition calculateMetrics :: "MetricsParams \<Rightarrow> real \<Rightarrow> error + SimulationResults" where
  "calculateMetrics params rnd =
     (let ob = orderbook params; qty = quantity params; vol = volatility params in
      case price0 (asks ob) of
        Inl e \<Rightarrow> Inl e
      | Inr a0 \<Rightarrow>
     (case price0 (bids ob) of
        Inl e \<Rightarrow> Inl e
      | Inr b0 \<Rightarrow>
          let bestAsk = parseFloat a0;
              bestBid = parseFloat b0;
              midPrice = js_div (js_add bestAsk bestBid) (Fin 2);
              slip = calculateSlippage ob qty;
              fee = calculateFees qty (feeTier params)
          in
     (case calculateEnhancedMarketImpact ob qty vol of
        Inl e \<Rightarrow> Inl e
      | Inr impact \<Rightarrow>
          let net = js_add (js_add (js_div (js_mul qty slip) (Fin 100)) fee)
                      (js_div (js_mul qty impact) (Fin 100))
          in
     (case estimateImprovedMakerTakerProportion ob qty (orderType params) vol of
        Inl e \<Rightarrow> Inl e
      | Inr (makerP, takerP) \<Rightarrow>
          let latency = js_add (js_mul (Fin rnd) (Fin 30)) (Fin 10)
          in Inr \<lparr>slippage = slip, fees = fee, marketImpact = impact, netCost = net,
                  makerProportion = makerP, takerProportion = takerP,
                  internalLatency = latency\<rparr>))))"

section \<open>Valid inputs\<close>

text \<open>
  A valid snapshot has two non-empty sides whose prices and sizes are finite and
  non-negative, asks strictly ascending and bids strictly descending by price, and a best
  ask that is not below the best bid. Valid order parameters have a finite positive
  quantity and a volatility in \<open>[0, 1]\<close>.
\<close>

definition level_ok :: "level \<Rightarrow> bool" where
  "level_ok l =
     (case (parseFloat (fst l), parseFloat (snd l)) of
        (Fin p, Fin s) \<Rightarrow> 0 \<le> p \<and> 0 \<le> s
      | _ \<Rightarrow> False)"

fun strictly_ascending :: "number list \<Rightarrow> bool" where
  "strictly_ascending (x # y # zs) = (js_lt x y \<and> strictly_ascending (y # zs))"
| "strictly_ascending _ = True"

definition prices :: "level list \<Rightarrow> number list" where
  "prices levels = map (\<lambda>l. parseFloat (fst l)) levels"

definition valid_snapshot :: "OrderbookData \<Rightarrow> bool" where
  "valid_snapshot ob =
     (asks ob \<noteq> [] \<and> bids ob \<noteq> [] \<and> list_all level_ok (asks ob) \<and> list_all level_ok (bids ob)
      \<and> strictly_ascending (prices (asks ob)) \<and> strictly_ascending (rev (prices (bids ob)))
      \<and> \<not> js_lt (hd (prices (asks ob))) (hd (prices (bids ob))))"

definition valid_params :: "MetricsParams \<Rightarrow> bool" where
  "valid_params p =
     (valid_snapshot (orderbook p)
      \<and> (case quantity p of Fin q \<Rightarrow> 0 < q | _ \<Rightarrow> False)
      \<and> (case volatility p of Fin v \<Rightarrow> 0 \<le> v \<and> v \<le> 1 | _ \<Rightarrow> False))"

section \<open>The formulas in real arithmetic\<close>

text \<open>
  The quantities of the sub-algorithms written over the reals, for a snapshot whose levels
  are numerals: the numeric value of a size and of a price (0 for a string that is not a
  finite numeral), the depth of a side, and the closed forms that the calculator is compared
  with below.
\<close>

definition size_val :: "level \<Rightarrow> real" where
  "size_val l = (case parseFloat (snd l) of Fin s \<Rightarrow> s | _ \<Rightarrow> 0)"

definition price_val :: "level \<Rightarrow> real" where
  "price_val l = (case parseFloat (fst l) of Fin p \<Rightarrow> p | _ \<Rightarrow> 0)"

definition depth :: "level list \<Rightarrow> real" where
  "depth levels = sum_list (map size_val levels)"

definition top5_volume :: "level list \<Rightarrow> real" where
  "top5_volume levels = depth (take 5 levels)"

definition imbalance_formula :: "OrderbookData \<Rightarrow> real" where
  "imbalance_formula ob =
     (top5_volume (bids ob) - top5_volume (asks ob))
       / (top5_volume (bids ob) + top5_volume (asks ob))"

definition slippage_formula :: "OrderbookData \<Rightarrow> real \<Rightarrow> real" where
  "slippage_formula ob q = 0.05 + 0.001 * sqrt q - 0.1 * imbalance_formula ob"

definition best_price :: "level list \<Rightarrow> real" where
  "best_price levels = (case levels of [] \<Rightarrow> 0 | l # _ \<Rightarrow> price_val l)"

definition mid_price :: "OrderbookData \<Rightarrow> real" where
  "mid_price ob = (best_price (asks ob) + best_price (bids ob)) / 2"

definition total_depth :: "OrderbookData \<Rightarrow> real" where
  "total_depth ob = depth (bids ob) + depth (asks ob)"

definition rel_size :: "OrderbookData \<Rightarrow> real \<Rightarrow> real" where
  "rel_size ob q = (if total_depth ob = 0 then 0 else q / total_depth ob)"

definition permanent :: "OrderbookData \<Rightarrow> real \<Rightarrow> real \<Rightarrow> real" where
  "permanent ob q v = 0.1 * v * rel_size ob q * mid_price ob"

definition temporary :: "OrderbookData \<Rightarrow> real \<Rightarrow> real \<Rightarrow> real" where
  "temporary ob q v = 0.05 * sqrt (rel_size ob q) * mid_price ob * (1 + v)"


text \<open>The taker ratio of the maker/taker heuristic, from the two best prices and the two depths.\<close>

definition taker_ratio :: "real \<Rightarrow> real \<Rightarrow> real \<Rightarrow> real \<Rightarrow> real \<Rightarrow> string \<Rightarrow> real \<Rightarrow> real" where
  "taker_ratio pa pb bd ad q otype v =
     (let spread = pa - pb;
          mid = (pa + pb) / 2;
          relSpread = (if 0 < mid then spread / mid else 0);
          relOrderSize = (if 0 < ad * mid then q / (ad * mid) else 1);
          base = (if otype = ''market'' then 0.95 else 0.5);
          sizeImpact = min 0.25 (relOrderSize * 0.5);
          volImpact = min 0.15 (v * 0.3);
          spreadImpact = max (- 0.2) (- relSpread * 20);
          depthImbalance = (bd - ad) / (if bd + ad = 0 then 1 else bd + ad);
          balanceImpact = min (max (- 0.1) (depthImbalance * 0.1)) 0.1;
          t0 = min 1 (max 0 (base + sizeImpact + volImpact + spreadImpact + balanceImpact))
      in if 0.8 < v then min 1 (t0 + 0.15) else t0)"

text \<open>The six fields of a bundle that do not come from the random draw.\<close>

definition computed_fields ::
  "SimulationResults \<Rightarrow> number \<times> number \<times> number \<times> number \<times> number \<times> number" where
  "computed_fields b =
     (slippage b, fees b, marketImpact b, netCost b, makerProportion b, takerProportion b)"



section \<open>The caller (components/TradingSimulator.tsx)\<close>

text \<open>
  The component state that \<open>handleWebSocketMessage\<close> reads and writes: the last snapshot,
  the decode latency shown in the performance panel, the last bundle, and the order inputs.
  An exception of \<open>calculateMetrics\<close> leaves the handler after the first two updates.
\<close>

record SimulatorState =
  orderbookData :: "OrderbookData option"
  latency :: number
  results :: "SimulationResults option"
  st_exchange :: string
  st_orderType :: string
  st_quantity :: number
  st_volatility :: number
  st_feeTier :: string

definition handleWebSocketMessage ::
  "OrderbookData \<Rightarrow> number \<Rightarrow> real \<Rightarrow> SimulatorState \<Rightarrow> error option \<times> SimulatorState" where
  "handleWebSocketMessage data processingTime rnd st =
     (let st1 = st\<lparr>orderbookData := Some data\<rparr>;
          st2 = st1\<lparr>latency := processingTime\<rparr>
      in case calculateMetrics
                \<lparr>orderbook = data, quantity = st_quantity st, orderType = st_orderType st,
                 volatility = st_volatility st, feeTier = st_feeTier st,
                 exchange_name = st_exchange st\<rparr> rnd of
           Inl e \<Rightarrow> (Some e, st2)
         | Inr simulationResults \<Rightarrow> (None, st2\<lparr>results := Some simulationResults\<rparr>))"

section \<open>The ingestion adapter (lib/websocket.ts)\<close>

text \<open>
  The callbacks given to the manager act on a state of the caller, of type \<open>'a\<close>; a callback
  that raises returns the exception with the state it left. The world of the manager is its
  \<open>socket\<close> field (\<open>null\<close>, or a socket in a ready state), the caller's state, and the lines
  written with \<open>console.error\<close>.
\<close>

datatype readyState = CONNECTING | OPEN | CLOSING | CLOSED

record 'a WebSocketManagerOptions =
  onMessage :: "OrderbookData \<Rightarrow> number \<Rightarrow> 'a \<Rightarrow> error option \<times> 'a"
  onOpen :: "('a \<Rightarrow> 'a) option"
  onError :: "('a \<Rightarrow> 'a) option"
  onClose :: "('a \<Rightarrow> 'a) option"

record 'a world =
  socket :: "readyState option"
  app :: 'a
  console :: "string list"

text \<open>
  \<open>socket.onmessage\<close>. \<open>JSON.parse\<close> is a parameter: it gives the decoded snapshot or raises.
  The two readings of \<open>performance.now()\<close> are \<open>startTime\<close> and \<open>endTime\<close>. The \<open>try\<close> block
  covers the parse and the callback, and the \<open>catch\<close> only writes to the console.
\<close>

definition socket_onmessage ::
  "'a WebSocketManagerOptions \<Rightarrow> (string \<Rightarrow> error + OrderbookData) \<Rightarrow> string \<Rightarrow> real \<Rightarrow> real
     \<Rightarrow> 'a world \<Rightarrow> 'a world" where
  "socket_onmessage options JSON_parse event_data startTime endTime w =
     (case JSON_parse event_data of
        Inl e \<Rightarrow> w\<lparr>console := console w @ [''Error processing message:'']\<rparr>
      | Inr data \<Rightarrow>
          let processingTime = Fin (endTime - startTime) in
          (case onMessage options data processingTime (app w) of
             (None, a) \<Rightarrow> w\<lparr>app := a\<rparr>
           | (Some e, a) \<Rightarrow> w\<lparr>app := a, console := console w @ [''Error processing message:'']\<rparr>))"

text \<open>\<open>socket.onerror\<close>: the one place where the manager calls the error callback on a live socket.\<close>

definition socket_onerror :: "'a WebSocketManagerOptions \<Rightarrow> 'a world \<Rightarrow> 'a world" where
  "socket_onerror options w =
     (case onError options of None \<Rightarrow> w | Some f \<Rightarrow> w\<lparr>app := f (app w)\<rparr>)"

definition isConnected :: "'a world \<Rightarrow> bool" where
  "isConnected w = (socket w \<noteq> None \<and> socket w = Some OPEN)"

text \<open>The messages of a stream, each with its two clock readings, handled in arrival order.\<close>

fun deliver ::
  "'a WebSocketManagerOptions \<Rightarrow> (string \<Rightarrow> error + OrderbookData) \<Rightarrow> (string \<times> real \<times> real) list
     \<Rightarrow> 'a world \<Rightarrow> 'a world" where
  "deliver options JSON_parse [] w = w"
| "deliver options JSON_parse ((m, t0, t1) # ms) w =
     deliver options JSON_parse ms (socket_onmessage options JSON_parse m t0 t1 w)"

section \<open>Sample inputs\<close>

definition book :: "level list \<Rightarrow> level list \<Rightarrow> OrderbookData" where
  "book a b =
     \<lparr>timestamp = ''2025-05-04T10:39:13Z'', exchange = ''OKX'', symbol = ''BTC-USDT-SWAP'',
      asks = a, bids = b\<rparr>"

definition order :: "OrderbookData \<Rightarrow> number \<Rightarrow> number \<Rightarrow> string \<Rightarrow> MetricsParams" where
  "order ob qty vol tier =
     \<lparr>orderbook = ob, quantity = qty, orderType = ''market'', volatility = vol,
      feeTier = tier, exchange_name = ''OKX''\<rparr>"


definition small_book :: OrderbookData where
  "small_book = book [(''101'', ''3'')] [(''99'', ''1'')]"


text \<open>A valid snapshot whose levels all have size 0.\<close>

definition zero_volume_book :: OrderbookData where
  "zero_volume_book = book [(''100'', ''0'')] [(''99'', ''0'')]"

text \<open>A valid snapshot whose two best prices are 0.\<close>

definition zero_price_book :: OrderbookData where
  "zero_price_book = book [(''0'', ''1'')] [(''0'', ''1'')]"

definition initial_state :: SimulatorState where
  "initial_state =
     \<lparr>orderbookData = None, latency = Fin 0, results = None, st_exchange = ''OKX'',
      st_orderType = ''market'', st_quantity = Fin 100, st_volatility = Fin 0.5,
      st_feeTier = ''tier1''\<rparr>"

text \<open>
  A caller that counts the calls of its error callback, and a decoder that accepts one text.
\<close>

definition counting_options :: "nat WebSocketManagerOptions" where
  "counting_options =
     \<lparr>onMessage = (\<lambda>data t n. (None, n)), onOpen = None, onError = Some Suc, onClose = None\<rparr>"

definition sample_parse :: "string \<Rightarrow> error + OrderbookData" where
  "sample_parse s = (if s = ''small'' then Inr small_book else Inl SyntaxError)"

definition open_world :: "nat world" where
  "open_world = \<lparr>socket = Some OPEN, app = 0, console = []\<rparr>"

section \<open>Arithmetic on finite numbers\<close>

lemma Math_min_Fin: "Math_min (Fin a) (Fin b) = Fin (min a b)"
  by (simp add: Math_min_def min_def)

lemma Math_max_Fin: "Math_max (Fin a) (Fin b) = Fin (max a b)"
  by (simp add: Math_max_def max_def)

lemma js_sub_Fin: "js_sub (Fin a) (Fin b) = Fin (a - b)"
  by (simp add: js_sub_def)

lemma js_or_Fin: "js_or (Fin a) (Fin b) = Fin (if a = 0 then b else a)"
  by (simp add: js_or_def truthy_def)

section \<open>Levels of a valid snapshot\<close>

lemma level_ok_parse:
  "level_ok l \<Longrightarrow> parseFloat (snd l) = Fin (size_val l) \<and> 0 \<le> size_val l
     \<and> parseFloat (fst l) = Fin (price_val l) \<and> 0 \<le> price_val l"
  by (auto simp: level_ok_def size_val_def price_val_def split: number.splits)

lemma foldl_sizes:
  "list_all level_ok ls \<Longrightarrow>
   foldl (\<lambda>sum l. js_add sum (parseFloat (snd l))) (Fin acc) ls = Fin (acc + depth ls)"
proof (induction ls arbitrary: acc)
  case Nil
  then show ?case by (simp add: depth_def)
next
  case (Cons l ls)
  then have "parseFloat (snd l) = Fin (size_val l)" and "list_all level_ok ls"
    by (simp_all add: level_ok_parse)
  with Cons.IH [of "acc + size_val l"] show ?case
    by (simp add: depth_def add.assoc)
qed

lemma sum_sizes_depth: "list_all level_ok ls \<Longrightarrow> sum_sizes ls = Fin (depth ls)"
  using foldl_sizes [of ls 0] by (simp add: sum_sizes_def)

lemma depth_nonneg: "list_all level_ok ls \<Longrightarrow> 0 \<le> depth ls"
  unfolding depth_def
  by (induction ls) (auto simp: level_ok_parse)

lemma list_all_take: "list_all P ls \<Longrightarrow> list_all P (take n ls)"
  by (auto simp: list_all_iff dest: in_set_takeD)

lemma valid_snapshot_sides:
  assumes "valid_snapshot ob"
  obtains a0 as b0 bs where "asks ob = a0 # as" and "bids ob = b0 # bs"
    and "level_ok a0" and "level_ok b0"
    and "list_all level_ok (asks ob)" and "list_all level_ok (bids ob)"
proof -
  from assms obtain a0 as b0 bs where ab: "asks ob = a0 # as" "bids ob = b0 # bs"
    by (auto simp: valid_snapshot_def neq_Nil_conv)
  from assms have ok: "list_all level_ok (asks ob)" "list_all level_ok (bids ob)"
    by (simp_all add: valid_snapshot_def)
  with ab have "level_ok a0" "level_ok b0" by simp_all
  with ab ok show ?thesis using that by blast
qed

section \<open>The maker/taker split on finite inputs\<close>



lemma estimate_Fin:
  assumes "asks ob = a0 # as" and "bids ob = b0 # bs"
    and "parseFloat (fst a0) = Fin pa" and "parseFloat (fst b0) = Fin pb"
    and "sum_sizes (bids ob) = Fin bd" and "sum_sizes (asks ob) = Fin ad"
  shows "estimateImprovedMakerTakerProportion ob (Fin q) otype (Fin v)
           = Inr (Fin (100 - taker_ratio pa pb bd ad q otype v * 100),
                  Fin (taker_ratio pa pb bd ad q otype v * 100))"
proof -
  define mid where "mid = (pa + pb) / 2"
  define rs where "rs = (if 0 < mid then (pa - pb) / mid else 0)"
  define ro where "ro = (if 0 < ad * mid then q / (ad * mid) else 1)"
  define base :: real where "base = (if otype = ''market'' then 0.95 else 0.5)"
  define di where "di = (bd - ad) / (if bd + ad = 0 then 1 else bd + ad)"
  define t0 where
    "t0 = min 1 (max 0 (base + min 0.25 (ro * 0.5) + min 0.15 (v * 0.3) + max (- 0.2) (- rs * 20)
                    + min (max (- 0.1) (di * 0.1)) 0.1))"
  define t where "t = (if 0.8 < v then min 1 (t0 + 0.15) else t0)"
  have t: "taker_ratio pa pb bd ad q otype v = t"
    unfolding taker_ratio_def Let_def t_def t0_def di_def base_def ro_def rs_def mid_def ..
  have e1: "js_div (js_add (Fin pa) (Fin pb)) (Fin 2) = Fin mid"
    by (simp add: mid_def)
  have e2: "js_sub (Fin pa) (Fin pb) = Fin (pa - pb)"
    by (simp add: js_sub_Fin)
  have e3: "(if js_gt (Fin mid) (Fin 0) then js_div (Fin (pa - pb)) (Fin mid) else Fin 0) = Fin rs"
    by (simp add: rs_def)
  have e4: "(if js_gt (js_mul (Fin ad) (Fin mid)) (Fin 0)
             then js_div (Fin q) (js_mul (Fin ad) (Fin mid)) else Fin 1) = Fin ro"
    by (simp add: ro_def)
  have e5: "(if otype = ''market'' then Fin 0.95 else Fin 0.5) = Fin base"
    by (simp add: base_def)
  have e6: "Math_min (Fin 0.25) (js_mul (Fin ro) (Fin 0.5)) = Fin (min 0.25 (ro * 0.5))"
    by (simp add: Math_min_Fin)
  have e7: "Math_min (Fin 0.15) (js_mul (Fin v) (Fin 0.3)) = Fin (min 0.15 (v * 0.3))"
    by (simp add: Math_min_Fin)
  have e8: "Math_max (Fin (- 0.2)) (js_mul (js_neg (Fin rs)) (Fin 20)) = Fin (max (- 0.2) (- rs * 20))"
    by (simp add: Math_max_Fin)
  have e9: "js_div (js_sub (Fin bd) (Fin ad)) (js_or (js_add (Fin bd) (Fin ad)) (Fin 1)) = Fin di"
    by (simp add: js_sub_Fin js_or_Fin di_def)
  have e10: "Math_min (Math_max (Fin (- 0.1)) (js_mul (Fin di) (Fin 0.1))) (Fin 0.1)
               = Fin (min (max (- 0.1) (di * 0.1)) 0.1)"
    by (simp add: Math_min_Fin Math_max_Fin)
  have e11: "Math_min (Fin 1)
               (Math_max (Fin 0)
                  (js_add (js_add (js_add (js_add (Fin base) (Fin (min 0.25 (ro * 0.5))))
                                      (Fin (min 0.15 (v * 0.3))))
                             (Fin (max (- 0.2) (- rs * 20))))
                     (Fin (min (max (- 0.1) (di * 0.1)) 0.1)))) = Fin t0"
    unfolding t0_def by (simp only: js_add.simps Math_min_Fin Math_max_Fin)
  have e12: "(if js_gt (Fin v) (Fin 0.8) then Math_min (Fin 1) (js_add (Fin t0) (Fin 0.15))
              else Fin t0) = Fin t"
    by (simp add: t_def Math_min_Fin)
  have e13: "js_mul (Fin t) (Fin 100) = Fin (t * 100)"
    by simp
  have e14: "js_sub (Fin 100) (Fin (t * 100)) = Fin (100 - t * 100)"
    by (simp add: js_sub_Fin)
  show ?thesis
    unfolding estimateImprovedMakerTakerProportion_def Let_def assms(5,6)
    unfolding price0_def assms(1,2) list.case sum.case assms(3,4)
    unfolding e1 e2 e3 e4 e5 e6 e7 e8 e9 e10 e11 e12 e13 e14 t ..
qed

lemma impact_not_error:
  assumes "asks ob = a0 # as" and "bids ob = b0 # bs"
  shows "\<exists>i. calculateEnhancedMarketImpact ob qty vol = Inr i"
  by (simp add: calculateEnhancedMarketImpact_def price0_def assms)

lemma calculateMetrics_Inr:
  assumes "asks ob = a0 # as" and "bids ob = b0 # bs" and "orderbook p = ob"
    and "calculateEnhancedMarketImpact ob (quantity p) (volatility p) = Inr i"
    and "estimateImprovedMakerTakerProportion ob (quantity p) (orderType p) (volatility p)
           = Inr (m, t)"
  shows "calculateMetrics p rnd =
           Inr \<lparr>slippage = calculateSlippage ob (quantity p),
                fees = calculateFees (quantity p) (feeTier p),
                marketImpact = i,
                netCost =
                  js_add (js_add (js_div (js_mul (quantity p) (calculateSlippage ob (quantity p)))
                                    (Fin 100))
                            (calculateFees (quantity p) (feeTier p)))
                    (js_div (js_mul (quantity p) i) (Fin 100)),
                makerProportion = m, takerProportion = t,
                internalLatency = Fin (rnd * 30 + 10)\<rparr>"
  unfolding calculateMetrics_def Let_def assms(3)
  unfolding assms(4,5)
  by (simp add: price0_def assms(1,2))

section \<open>Evaluation of the sample inputs\<close>

lemmas parse_simps =
  parseFloat_def parse_unsigned_def is_digit_def is_ws_def digit_val_def digits_val_def
  exponent_part_def scale10_def

lemmas valid_simps =
  valid_params_def valid_snapshot_def level_ok_def prices_def js_lt_def order_def book_def

section \<open>The empty book\<close>

text \<open>
  Claim C1. On a snapshot whose asks or bids are empty, \<open>calculateMetrics\<close> returns no
  bundle: whatever the order parameters and the random draw, it raises at its first reads of
  level 0. The source has no error class of its own; the failure is the TypeError of reading
  index 0 of \<open>undefined\<close>, raised before any metric is computed.
\<close>

theorem calculateMetrics_empty_book:
  assumes "asks (orderbook p) = [] \<or> bids (orderbook p) = []"
  shows "calculateMetrics p rnd = Inl TypeError"
  using assms
  by (auto simp: calculateMetrics_def price0_def Let_def split: list.splits)

theorem calculateMetrics_empty_book_witness:
  "(asks (orderbook (order (book [] [(''99'', ''1'')]) (Fin 100) (Fin 0.5) ''tier1'')) = []
      \<or> bids (orderbook (order (book [] [(''99'', ''1'')]) (Fin 100) (Fin 0.5) ''tier1'')) = [])
   \<and> calculateMetrics (order (book [] [(''99'', ''1'')]) (Fin 100) (Fin 0.5) ''tier1'') 0
       = Inl TypeError"
  using calculateMetrics_empty_book
          [of "order (book [] [(''99'', ''1'')]) (Fin 100) (Fin 0.5) ''tier1''" 0]
  by (simp add: order_def book_def)

section \<open>Determinism\<close>

text \<open>
  Claim C3. Two calls of \<open>calculateMetrics\<close> on the same parameters agree on whether they
  raise and on slippage, fees, marketImpact, netCost, makerProportion and takerProportion,
  whatever the two random draws are: only the latency field depends on the draw.
\<close>

theorem calculateMetrics_deterministic:
  "map_sum id computed_fields (calculateMetrics p r1)
     = map_sum id computed_fields (calculateMetrics p r2)"
  by (simp add: calculateMetrics_def Let_def computed_fields_def
           split: sum.splits prod.splits)

section \<open>The maker/taker split\<close>



section \<open>Slippage and market impact on finite inputs\<close>

lemma slippage_Fin:
  assumes "sum_sizes (take 5 (asks ob)) = Fin av" and "sum_sizes (take 5 (bids ob)) = Fin bv"
    and "0 \<le> q"
  shows "calculateSlippage ob (Fin q)
           = js_add (Fin (0.05 + 0.001 * sqrt q))
               (js_mul (Fin (- 0.1)) (js_div (Fin (bv - av)) (Fin (bv + av))))"
proof -
  have e1: "Math_sqrt (Fin q) = Fin (sqrt q)"
    using assms(3) by simp
  have e2: "js_add (Fin 0.05) (js_mul (Fin 0.001) (Fin (sqrt q))) = Fin (0.05 + 0.001 * sqrt q)"
    by simp
  have e3: "js_sub (Fin bv) (Fin av) = Fin (bv - av)"
    by (simp add: js_sub_Fin)
  have e4: "js_add (Fin bv) (Fin av) = Fin (bv + av)"
    by simp
  show ?thesis
    unfolding calculateSlippage_def Let_def assms(1,2)
    unfolding e1 e2 e3 e4 ..
qed

lemma impact_Fin:
  assumes "asks ob = a0 # as" and "bids ob = b0 # bs"
    and "parseFloat (fst a0) = Fin pa" and "parseFloat (fst b0) = Fin pb"
    and "sum_sizes (bids ob) = Fin bd" and "sum_sizes (asks ob) = Fin ad"
    and "0 \<le> bd + ad" and "0 \<le> q"
    and "mid = (pa + pb) / 2" and "rel = (if bd + ad = 0 then 0 else q / (bd + ad))"
  shows "calculateEnhancedMarketImpact ob (Fin q) (Fin v)
           = Inr (js_mul (js_div (Fin (0.1 * v * rel * mid + 0.05 * sqrt rel * mid * (1 + v)))
                            (Fin mid))
                    (Fin 100))"
proof -
  have rel: "0 \<le> rel"
    using assms(7,8,10) by simp
  have e1: "js_div (js_add (Fin pa) (Fin pb)) (Fin 2) = Fin mid"
    by (simp add: assms(9))
  have e2: "js_add (Fin bd) (Fin ad) = Fin (bd + ad)"
    by simp
  have e3: "(if js_gt (Fin (bd + ad)) (Fin 0) then js_div (Fin q) (Fin (bd + ad)) else Fin 0)
              = Fin rel"
    using assms(7) by (simp add: assms(10))
  have e4: "js_mul (js_mul (js_mul (Fin 0.1) (Fin v)) (Fin rel)) (Fin mid)
              = Fin (0.1 * v * rel * mid)"
    by simp
  have e5: "Math_sqrt (Fin rel) = Fin (sqrt rel)"
    using rel by simp
  have e6: "js_mul (js_mul (js_mul (Fin 0.05) (Fin (sqrt rel))) (Fin mid)) (js_add (Fin 1) (Fin v))
              = Fin (0.05 * sqrt rel * mid * (1 + v))"
    by simp
  have e7: "js_add (Fin (0.1 * v * rel * mid)) (Fin (0.05 * sqrt rel * mid * (1 + v)))
              = Fin (0.1 * v * rel * mid + 0.05 * sqrt rel * mid * (1 + v))"
    by simp
  show ?thesis
    unfolding calculateEnhancedMarketImpact_def Let_def assms(5,6)
    unfolding price0_def assms(1,2) list.case sum.case assms(3,4)
    unfolding e1 e2 e3 e4 e5 e6 e7 ..
qed

lemma valid_snapshot_values:
  assumes "valid_snapshot ob"
  obtains a0 as b0 bs where "asks ob = a0 # as" and "bids ob = b0 # bs"
    and "parseFloat (fst a0) = Fin (best_price (asks ob))"
    and "parseFloat (fst b0) = Fin (best_price (bids ob))"
    and "sum_sizes (bids ob) = Fin (depth (bids ob))"
    and "sum_sizes (asks ob) = Fin (depth (asks ob))"
proof -
  from assms obtain a0 as b0 bs where sides: "asks ob = a0 # as" "bids ob = b0 # bs"
    and ok0: "level_ok a0" "level_ok b0"
    and ok: "list_all level_ok (asks ob)" "list_all level_ok (bids ob)"
    by (rule valid_snapshot_sides)
  have "parseFloat (fst a0) = Fin (price_val a0)" "parseFloat (fst b0) = Fin (price_val b0)"
    using ok0 level_ok_parse by blast+
  then have "parseFloat (fst a0) = Fin (best_price (asks ob))"
    "parseFloat (fst b0) = Fin (best_price (bids ob))"
    by (simp_all add: best_price_def sides)
  moreover have "sum_sizes (bids ob) = Fin (depth (bids ob))"
    "sum_sizes (asks ob) = Fin (depth (asks ob))"
    using ok by (simp_all add: sum_sizes_depth)
  ultimately show ?thesis using sides that by blast
qed

lemma valid_snapshot_depths:
  assumes "valid_snapshot ob"
  shows "0 \<le> depth (bids ob)" and "0 \<le> depth (asks ob)"
    and "sum_sizes (take 5 (asks ob)) = Fin (top5_volume (asks ob))"
    and "sum_sizes (take 5 (bids ob)) = Fin (top5_volume (bids ob))"
    and "0 \<le> top5_volume (asks ob)" and "0 \<le> top5_volume (bids ob)"
proof -
  from assms have ok: "list_all level_ok (asks ob)" "list_all level_ok (bids ob)"
    by (simp_all add: valid_snapshot_def)
  then show "0 \<le> depth (bids ob)" and "0 \<le> depth (asks ob)"
    by (simp_all add: depth_nonneg)
  from ok have ok5: "list_all level_ok (take 5 (asks ob))" "list_all level_ok (take 5 (bids ob))"
    by (simp_all add: list_all_take)
  then show "sum_sizes (take 5 (asks ob)) = Fin (top5_volume (asks ob))"
    and "sum_sizes (take 5 (bids ob)) = Fin (top5_volume (bids ob))"
    by (simp_all add: sum_sizes_depth top5_volume_def)
  from ok5 show "0 \<le> top5_volume (asks ob)" and "0 \<le> top5_volume (bids ob)"
    by (simp_all add: depth_nonneg top5_volume_def)
qed

lemma slippage_valid:
  assumes "valid_snapshot ob" and "0 \<le> q"
  shows "calculateSlippage ob (Fin q)
           = (if top5_volume (bids ob) + top5_volume (asks ob) = 0 then NaN
              else Fin (slippage_formula ob q))"
proof -
  let ?av = "top5_volume (asks ob)" and ?bv = "top5_volume (bids ob)"
  note d = valid_snapshot_depths [OF assms(1)]
  have s: "calculateSlippage ob (Fin q)
             = js_add (Fin (0.05 + 0.001 * sqrt q))
                 (js_mul (Fin (- 0.1)) (js_div (Fin (?bv - ?av)) (Fin (?bv + ?av))))"
    using d(3,4) assms(2) by (rule slippage_Fin)
  show ?thesis
  proof (cases "?bv + ?av = 0")
    case True
    with d(5,6) have "?bv = 0" "?av = 0" by linarith+
    with s True show ?thesis by simp
  next
    case False
    with s show ?thesis
      by (simp add: slippage_formula_def imbalance_formula_def)
  qed
qed

lemma impact_valid:
  assumes "valid_snapshot ob" and "0 \<le> q"
  shows "calculateEnhancedMarketImpact ob (Fin q) (Fin v)
           = Inr (js_mul (js_div (Fin (permanent ob q v + temporary ob q v)) (Fin (mid_price ob)))
                    (Fin 100))"
proof -
  from assms(1) obtain a0 as b0 bs where sides: "asks ob = a0 # as" "bids ob = b0 # bs"
    and p: "parseFloat (fst a0) = Fin (best_price (asks ob))"
      "parseFloat (fst b0) = Fin (best_price (bids ob))"
    and s: "sum_sizes (bids ob) = Fin (depth (bids ob))"
      "sum_sizes (asks ob) = Fin (depth (asks ob))"
    by (rule valid_snapshot_values)
  note d = valid_snapshot_depths [OF assms(1)]
  have nn: "0 \<le> depth (bids ob) + depth (asks ob)"
    using d(1,2) by simp
  have m: "mid_price ob = (best_price (asks ob) + best_price (bids ob)) / 2"
    by (simp add: mid_price_def)
  have r: "rel_size ob q
             = (if depth (bids ob) + depth (asks ob) = 0 then 0
                else q / (depth (bids ob) + depth (asks ob)))"
    by (simp add: rel_size_def total_depth_def)
  from impact_Fin [OF sides p s nn assms(2) m r, of v] show ?thesis
    by (simp only: permanent_def temporary_def)
qed

lemma calculateMetrics_valid:
  assumes "valid_snapshot (orderbook p)" and "quantity p = Fin q" and "0 \<le> q"
    and "volatility p = Fin v"
  shows "\<exists>b. calculateMetrics p rnd = Inr b
           \<and> slippage b = calculateSlippage (orderbook p) (Fin q)
           \<and> fees b = calculateFees (Fin q) (feeTier p)
           \<and> calculateEnhancedMarketImpact (orderbook p) (Fin q) (Fin v) = Inr (marketImpact b)
           \<and> netCost b =
               js_add (js_add (js_div (js_mul (Fin q) (slippage b)) (Fin 100)) (fees b))
                 (js_div (js_mul (Fin q) (marketImpact b)) (Fin 100))
           \<and> internalLatency b = Fin (rnd * 30 + 10)"
proof -
  define ob where "ob = orderbook p"
  from assms(1) obtain a0 as b0 bs where sides: "asks ob = a0 # as" "bids ob = b0 # bs"
    and pr: "parseFloat (fst a0) = Fin (best_price (asks ob))"
      "parseFloat (fst b0) = Fin (best_price (bids ob))"
    and s: "sum_sizes (bids ob) = Fin (depth (bids ob))"
      "sum_sizes (asks ob) = Fin (depth (asks ob))"
    unfolding ob_def by (rule valid_snapshot_values)
  obtain i where imp: "calculateEnhancedMarketImpact ob (quantity p) (volatility p) = Inr i"
    using impact_not_error [OF sides] by blast
  obtain m t where
    est: "estimateImprovedMakerTakerProportion ob (quantity p) (orderType p) (volatility p)
            = Inr (m, t)"
    unfolding assms(2,4) using estimate_Fin [OF sides pr s] by blast
  from calculateMetrics_Inr [OF sides ob_def [symmetric] imp est, of rnd] imp
  show ?thesis
    by (simp add: assms(2,4) ob_def)
qed

section \<open>Slippage\<close>



section \<open>Market impact\<close>



section \<open>Scaling the prices\<close>





section \<open>Zero denominators\<close>

lemma zero_mid_impact_NaN:
  "valid_snapshot zero_price_book
   \<and> calculateEnhancedMarketImpact zero_price_book (Fin 100) (Fin 0.5) = Inr NaN"
proof -
  have v: "valid_snapshot zero_price_book"
    by (simp add: valid_simps zero_price_book_def parse_simps)
  have m: "mid_price zero_price_book = 0"
    by (simp add: mid_price_def best_price_def price_val_def zero_price_book_def book_def
          parse_simps)
  have q: "(0::real) \<le> 100"
    by simp
  from v impact_valid [OF v q, of "0.5"] show ?thesis
    by (simp add: m permanent_def temporary_def)
qed

text \<open>
  Claim C4. The claim is that on a valid snapshot every division by zero takes its fallback
  and every field of the bundle is finite, also when the volumes of the first five levels
  sum to zero. \<open>calculateSlippage\<close> divides by \<open>bidVolume + askVolume\<close> without a guard: on
  the valid snapshot whose levels all have size 0 the imbalance is \<open>0/0\<close>, and the slippage
  and the net cost of the bundle are NaN.
\<close>

theorem zero_volume_slippage_NaN:
  "valid_params (order zero_volume_book (Fin 100) (Fin 0.5) ''tier1'')
   \<and> (\<exists>b. calculateMetrics (order zero_volume_book (Fin 100) (Fin 0.5) ''tier1'') 0 = Inr b
          \<and> slippage b = NaN \<and> netCost b = NaN)"
proof -
  let ?p = "order zero_volume_book (Fin 100) (Fin 0.5) ''tier1''"
  have v: "valid_snapshot zero_volume_book"
    by (simp add: valid_simps zero_volume_book_def parse_simps)
  then have vp: "valid_params ?p"
    by (simp add: valid_params_def order_def)
  have t: "top5_volume (bids zero_volume_book) + top5_volume (asks zero_volume_book) = 0"
    by (simp add: top5_volume_def depth_def size_val_def zero_volume_book_def book_def
          parse_simps)
  have q: "(0::real) \<le> 100"
    by simp
  have s: "calculateSlippage zero_volume_book (Fin 100) = NaN"
    using slippage_valid [OF v q] t by simp
  have "valid_snapshot (orderbook ?p)" "quantity ?p = Fin 100" "volatility ?p = Fin 0.5"
    using v by (simp_all add: order_def)
  from calculateMetrics_valid [OF this(1,2) q this(3), of 0] obtain b where
    b: "calculateMetrics ?p 0 = Inr b"
      "slippage b = calculateSlippage (orderbook ?p) (Fin 100)"
      "netCost b =
         js_add (js_add (js_div (js_mul (Fin 100) (slippage b)) (Fin 100)) (fees b))
           (js_div (js_mul (Fin 100) (marketImpact b)) (Fin 100))"
    by blast
  from b(2) s have "slippage b = NaN"
    by (simp add: order_def)
  with b(1,3) vp show ?thesis by simp
qed

section \<open>Latency\<close>

lemma latency_ignores_decode_time:
  "map_option internalLatency (results (snd (handleWebSocketMessage data t rnd st)))
     = map_option internalLatency (results (snd (handleWebSocketMessage data t' rnd st)))"
  by (simp add: handleWebSocketMessage_def Let_def split: sum.splits)

text \<open>
  Claim C2. The claim is that the latency field of the bundle is the decode latency measured
  by the adapter for the tick. \<open>calculateMetrics\<close> has no latency input and sets the field to
  \<open>Math.random() * 30 + 10\<close>: on a tick decoded in 0.5 ms with a draw of 0, the handler of
  the component stores 0.5 as its own \<open>latency\<close> and a bundle whose latency field is 10.
\<close>

theorem internalLatency_is_random_draw:
  "\<exists>st b. handleWebSocketMessage small_book (Fin 0.5) 0 initial_state = (None, st)
      \<and> latency st = Fin 0.5 \<and> results st = Some b \<and> internalLatency b = Fin 10"
proof -
  let ?p = "\<lparr>orderbook = small_book, quantity = st_quantity initial_state,
             orderType = st_orderType initial_state, volatility = st_volatility initial_state,
             feeTier = st_feeTier initial_state, exchange_name = st_exchange initial_state\<rparr>"
  have v: "valid_snapshot (orderbook ?p)"
    by (simp add: valid_simps small_book_def parse_simps)
  have q: "quantity ?p = Fin 100" "(0::real) \<le> 100" "volatility ?p = Fin 0.5"
    by (simp_all add: initial_state_def)
  from calculateMetrics_valid [OF v q, of 0] obtain b where
    "calculateMetrics ?p 0 = Inr b" "internalLatency b = Fin 10"
    by auto
  then show ?thesis
    by (simp add: handleWebSocketMessage_def Let_def)
qed

section \<open>Fees\<close>

lemma calculateFees_table:
  "calculateFees (Fin q) ''tier1'' = Fin (q * 0.001)"
  "calculateFees (Fin q) ''tier2'' = Fin (q * 0.0008)"
  "calculateFees (Fin q) ''tier3'' = Fin (q * 0.0005)"
  "k \<notin> {''tier1'', ''tier2'', ''tier3''} \<Longrightarrow> k \<notin> set Object_prototype_keys \<Longrightarrow>
     calculateFees (Fin q) k = Fin (q * 0.001)"
  by (simp_all add: calculateFees_def feeRates_def truthy_def)

lemma calculateFees_examples:
  "calculateFees (Fin 1000) ''tier1'' = Fin 1" "calculateFees (Fin 1000) ''tier3'' = Fin 0.5"
  by (simp_all add: calculateFees_table)

text \<open>
  Claim C8. The claim is that the fee is the quantity times the rate of the tier, any unknown
  tier taking the rate of tier1. For a tier named like a property that \<open>feeRates\<close> inherits
  from \<open>Object.prototype\<close> the lookup is truthy, the fallback is not taken, and the fee is
  NaN: for 1000 and \<open>toString\<close> it is NaN, not 1.
\<close>

theorem calculateFees_inherited_key:
  "feeRates ''toString'' = Object \<and> calculateFees (Fin 1000) ''toString'' = NaN
   \<and> calculateFees (Fin 1000) ''tier1'' = Fin 1"
  by (simp add: calculateFees_def feeRates_def Object_prototype_keys_def truthy_def)

section \<open>Decode failures\<close>

lemma onmessage_console:
  "socket_onmessage options JSON_parse m t0 t1 (w\<lparr>console := c\<rparr>)
     = (socket_onmessage options JSON_parse m t0 t1 w)
         \<lparr>console := c @ drop (length (console w))
                            (console (socket_onmessage options JSON_parse m t0 t1 w))\<rparr>"
  by (simp add: socket_onmessage_def Let_def split: sum.splits prod.splits option.splits)

lemma deliver_console:
  "app (deliver options JSON_parse ms (w\<lparr>console := c\<rparr>)) = app (deliver options JSON_parse ms w)
   \<and> socket (deliver options JSON_parse ms (w\<lparr>console := c\<rparr>))
       = socket (deliver options JSON_parse ms w)"
proof (induction ms arbitrary: w c)
  case Nil
  show ?case by simp
next
  case (Cons x ms)
  obtain m t0 t1 where x: "x = (m, t0, t1)"
    by (cases x) auto
  show ?case
    unfolding x deliver.simps onmessage_console [where w = w and c = c]
    by (rule Cons.IH)
qed

text \<open>
  Claim C9, as stated: a decode failure is reported through the registered error callback.
  With a caller that counts the calls of its error callback, the count is still 0 after a
  message that does not parse; the handler of socket errors would have made it 1.
\<close>

theorem decode_failure_not_reported:
  "sample_parse ''{'' = Inl SyntaxError \<and> onError counting_options = Some Suc
   \<and> app open_world = 0
   \<and> app (socket_onmessage counting_options sample_parse ''{'' 0 1 open_world) = 0
   \<and> app (socket_onerror counting_options open_world) = Suc 0"
  by (simp add: sample_parse_def counting_options_def socket_onmessage_def socket_onerror_def
        open_world_def)

text \<open>
  Claim C9, amended. A message whose parse fails adds one line to the console and changes
  nothing else: no callback runs, the socket field and \<open>isConnected\<close> are unchanged, and the
  messages that follow are handled as if the failed one had not arrived.
\<close>

theorem decode_failure_logged_stream_continues:
  assumes "JSON_parse m = Inl e"
  shows "socket_onmessage options JSON_parse m t0 t1 w
           = w\<lparr>console := console w @ [''Error processing message:'']\<rparr>
         \<and> isConnected (socket_onmessage options JSON_parse m t0 t1 w) = isConnected w
         \<and> app (deliver options JSON_parse ((m, t0, t1) # ms) w)
             = app (deliver options JSON_parse ms w)
         \<and> socket (deliver options JSON_parse ((m, t0, t1) # ms) w)
             = socket (deliver options JSON_parse ms w)"
proof -
  have 1: "socket_onmessage options JSON_parse m t0 t1 w
             = w\<lparr>console := console w @ [''Error processing message:'']\<rparr>"
    by (simp add: socket_onmessage_def assms)
  then show ?thesis
    by (simp add: deliver_console isConnected_def)
qed

theorem decode_failure_logged_stream_continues_witness:
  "sample_parse ''{'' = Inl SyntaxError
   \<and> socket_onmessage counting_options sample_parse ''{'' 0 1 open_world
       = open_world\<lparr>console := console open_world @ [''Error processing message:'']\<rparr>
   \<and> isConnected (socket_onmessage counting_options sample_parse ''{'' 0 1 open_world)
       = isConnected open_world
   \<and> app (deliver counting_options sample_parse [(''{'', 0, 1), (''small'', 1, 2)] open_world)
       = app (deliver counting_options sample_parse [(''small'', 1, 2)] open_world)
   \<and> socket (deliver counting_options sample_parse [(''{'', 0, 1), (''small'', 1, 2)] open_world)
       = socket (deliver counting_options sample_parse [(''small'', 1, 2)] open_world)"
proof -
  have f: "sample_parse ''{'' = Inl SyntaxError"
    by (simp add: sample_parse_def)
  from f decode_failure_logged_stream_continues
         [of sample_parse "''{''" SyntaxError counting_options 0 1 open_world
            "[(''small'', 1, 2)]", OF f]
  show ?thesis by blast
qed

end
